theory Spec2Isabelle
  imports Main
begin

section \<open>Data model of the defects feature\<close>

text \<open>
  The records follow the fields that \<open>DefectsContext\<close> (closeDefect, reopenDefect,
  createNewDefect) and the seed data read and write. A field the code may leave
  \<open>undefined\<close> has an option type, with \<open>None\<close> for \<open>undefined\<close>.
  Timestamps, user ids, severities and attachments are strings, as in the source.
\<close>

datatype DefectStatus = Draft | Open | Acknowledged | InProgress | Deferred | Closed | Overdue

type_synonym attachment = string

record DefectComment =
  comment_id :: string
  comment_at :: string
  comment_by :: string
  comment_byName :: string
  comment_text :: string

text \<open>A comment as a caller of addComment passes it: \<open>Omit<DefectComment, 'id'>\<close>.\<close>

record NewComment =
  nc_at :: string
  nc_by :: string
  nc_byName :: string
  nc_text :: string

record HistoryData =
  data_actionTaken :: string
  data_returnToService :: "bool option"

record HistoryEntry =
  entry_at :: string
  entry_by :: string
  entry_byName :: string
  entry_type :: string
  entry_summary :: string
  entry_data :: "HistoryData option"

text \<open>
  \<open>DefectFields\<close> are the fields a caller of createDefect supplies, that is
  \<open>Omit<Defect, 'id' | 'defectCode' | 'unsafeDoNotUse' | 'history'>\<close>; \<open>Defect\<close> adds the
  four fields that type leaves out. The two counters are numbers in the source;
  \<open>None\<close> stands for a counter that is not a number (\<open>undefined\<close>, or the \<open>NaN\<close> that
  \<open>undefined + 1\<close> gives).
\<close>

record DefectFields =
  title :: string
  description :: string
  severity :: string
  severityModel :: string
  status :: DefectStatus
  assetId :: string
  siteId :: string
  siteName :: "string option"
  locationId :: "string option"
  assignedToId :: "string option"
  assignedToName :: "string option"
  targetRectificationDate :: "string option"
  complianceTags :: "string list"
  actions :: "string list"
  attachments :: "attachment list"
  beforeAfterRequired :: bool
  comments :: "DefectComment list"
  createdAt :: string
  createdBy :: string
  createdByName :: string
  updatedAt :: string
  updatedBy :: string
  updatedByName :: string
  reopenedCount :: "nat option"
  recurrenceCount :: "nat option"
  parentDefectId :: "string option"
  closedAt :: "string option"
  closedBy :: "string option"
  closedByName :: "string option"
  actionTaken :: "string option"

record Defect = DefectFields +
  defect_id :: string
  defectCode :: string
  unsafeDoNotUse :: bool
  history :: "HistoryEntry list"


text \<open>
  \<open>Partial<Defect>\<close>: the object literal passed to updateDefect, one entry per key that the
  operations below write. A key whose value is \<open>undefined\<close> (closedAt, closedBy,
  closedByName in reopenDefect) is present in the literal and is merged as \<open>None\<close>.
\<close>

datatype DefectUpdate =
    Set_status DefectStatus
  | Set_closedAt "string option"
  | Set_closedBy "string option"
  | Set_closedByName "string option"
  | Set_actionTaken string
  | Set_comments "DefectComment list"
  | Set_attachments "attachment list"
  | Set_unsafeDoNotUse bool
  | Set_updatedBy string
  | Set_updatedByName string
  | Set_reopenedCount "nat option"
  | Set_parentDefectId string
  | Set_recurrenceCount nat

text \<open>The \<open>data\<close> arguments of closeDefect and reopenDefect.\<close>

record CloseData =
  close_actionTaken :: string
  close_notes :: string
  close_attachments :: "attachment list"
  close_returnToService :: "bool option"

record ReopenData =
  isNewOccurrence :: bool
  reason :: string
  reopen_attachments :: "attachment list option"

datatype exn = Error string

fun message :: "exn \<Rightarrow> string" where
  "message (Error m) = m"

section \<open>The repository and the sync queue\<close>

text \<open>
  \<open>../db/repository\<close> and \<open>../db/syncQueue\<close> are imported by \<open>DefectsContext\<close>; their code is not
  part of the sources verified here. They are modelled from the collaborator contract of the
  specification (sections 4.3, 6 and 7): a table of whole records keyed by id, and an
  append-only queue. The table is a list of records in insertion order with at most one
  record per id.
\<close>

text \<open>Modelled from the spec: getDefectById of ../db/repository, the lookup of a record
  by its id ("CRUD over Asset/Defect records, keyed by id"); nothing found is \<open>None\<close>.\<close>

definition getDefectById :: "Defect list \<Rightarrow> string \<Rightarrow> Defect option" where
  "getDefectById tbl i = find (\<lambda>d. defect_id d = i) tbl"

text \<open>Modelled from the spec: getDefectByCode of ../db/repository, the lookup of a record
  by its human-readable code.\<close>

definition getDefectByCode :: "Defect list \<Rightarrow> string \<Rightarrow> Defect option" where
  "getDefectByCode tbl c = find (\<lambda>d. defectCode d = c) tbl"

text \<open>Modelled from the spec: the write of one whole record under its id ("persistence as
  an async key-value contract returning/accepting whole records"): the record with the
  same id is replaced, a record with a new id is added at the end.\<close>

fun putDefect :: "Defect \<Rightarrow> Defect list \<Rightarrow> Defect list" where
  "putDefect d [] = [d]"
| "putDefect d (x # xs) = (if defect_id x = defect_id d then d # xs else x # putDefect d xs)"

text \<open>Modelled from the spec: queryDefects of ../db/repository when called without a
  filter, as loadDefects() is by addDefectComment: every record of the table.\<close>

definition queryDefects :: "Defect list \<Rightarrow> Defect list" where
  "queryDefects tbl = tbl"

fun applyUpdate :: "Defect \<Rightarrow> DefectUpdate \<Rightarrow> Defect" where
  "applyUpdate d (Set_status v) = d\<lparr>status := v\<rparr>"
| "applyUpdate d (Set_closedAt v) = d\<lparr>closedAt := v\<rparr>"
| "applyUpdate d (Set_closedBy v) = d\<lparr>closedBy := v\<rparr>"
| "applyUpdate d (Set_closedByName v) = d\<lparr>closedByName := v\<rparr>"
| "applyUpdate d (Set_actionTaken v) = d\<lparr>actionTaken := Some v\<rparr>"
| "applyUpdate d (Set_comments v) = d\<lparr>comments := v\<rparr>"
| "applyUpdate d (Set_attachments v) = d\<lparr>attachments := v\<rparr>"
| "applyUpdate d (Set_unsafeDoNotUse v) = d\<lparr>unsafeDoNotUse := v\<rparr>"
| "applyUpdate d (Set_updatedBy v) = d\<lparr>updatedBy := v\<rparr>"
| "applyUpdate d (Set_updatedByName v) = d\<lparr>updatedByName := v\<rparr>"
| "applyUpdate d (Set_reopenedCount v) = d\<lparr>reopenedCount := v\<rparr>"
| "applyUpdate d (Set_parentDefectId v) = d\<lparr>parentDefectId := Some v\<rparr>"
| "applyUpdate d (Set_recurrenceCount v) = d\<lparr>recurrenceCount := Some v\<rparr>"

text \<open>Modelled from the spec: updateDefect of ../db/repository. Editing "is a direct field
  merge with no extra validation" that "does not append history"; an id that is not in
  the store is the NotFoundError of section 7. It returns the merged record.\<close>

definition updateDefect :: "Defect list \<Rightarrow> string \<Rightarrow> DefectUpdate list \<Rightarrow> exn + Defect \<times> Defect list" where
  "updateDefect tbl i updates =
     (case getDefectById tbl i of
        None \<Rightarrow> Inl (Error ''Defect not found'')
      | Some d \<Rightarrow> (let updated = foldl applyUpdate d updates in Inr (updated, putDefect updated tbl)))"

text \<open>Modelled from the spec: addHistoryEntry of ../db/repository. History is "ordered ...
  (append-only, each: timestamp, actor, type, summary)": the entry goes to the end of the
  record's history.\<close>

definition addHistoryEntry :: "Defect list \<Rightarrow> string \<Rightarrow> HistoryEntry \<Rightarrow> exn + unit \<times> Defect list" where
  "addHistoryEntry tbl i entry =
     (case getDefectById tbl i of
        None \<Rightarrow> Inl (Error ''Defect not found'')
      | Some d \<Rightarrow> Inr ((), putDefect (d\<lparr>history := history d @ [entry]\<rparr>) tbl))"

text \<open>Modelled from the spec: addComment of ../db/repository: "appends to comments (ordered,
  append-only); does not itself append a history entry". The id of the stored comment is
  assigned by the repository and is a parameter here.\<close>

definition addComment :: "string \<Rightarrow> Defect list \<Rightarrow> string \<Rightarrow> NewComment \<Rightarrow> exn + unit \<times> Defect list" where
  "addComment newCommentId tbl i c =
     (case getDefectById tbl i of
        None \<Rightarrow> Inl (Error ''Defect not found'')
      | Some d \<Rightarrow>
          Inr ((), putDefect (d\<lparr>comments := comments d @
                 [\<lparr>comment_id = newCommentId, comment_at = nc_at c, comment_by = nc_by c,
                   comment_byName = nc_byName c, comment_text = nc_text c\<rparr>]\<rparr>) tbl))"

text \<open>Modelled from the spec: deleteDefect of ../db/repository: "unconditional removal",
  "no soft-delete, no cascading cleanup of child recurrences".\<close>

definition deleteDefect :: "Defect list \<Rightarrow> string \<Rightarrow> Defect list" where
  "deleteDefect tbl i = filter (\<lambda>d. defect_id d \<noteq> i) tbl"

text \<open>The values the store assigns to a record it creates.\<close>

record Assigned =
  newDefectId :: string
  newDefectCode :: string
  newUnsafeDoNotUse :: bool
  newHistory :: "HistoryEntry list"

text \<open>Modelled from the spec: createDefect of ../db/repository. The record is stored whole
  under a server-assigned id and code (section 8: "server-assigned id/code/history");
  unsafeDoNotUse is left out of the input type in the source and is assigned as well.
  The input type leaves history out too, yet reopenDefect passes \<open>history: []\<close>: a history
  the caller passes is kept (section 4.3: the recurrence starts with "empty
  history/comments"), otherwise the store initialises it. The assigned values are
  parameters.\<close>

definition createDefect :: "Assigned \<Rightarrow> Defect list \<Rightarrow> DefectFields \<Rightarrow> HistoryEntry list option \<Rightarrow> Defect \<times> Defect list" where
  "createDefect a tbl input hist =
     (let newDefect = DefectFields.extend input
            (Defect.fields (newDefectId a) (newDefectCode a) (newUnsafeDoNotUse a)
               (case hist of Some h \<Rightarrow> h | None \<Rightarrow> newHistory a))
      in (newDefect, putDefect newDefect tbl))"

datatype Payload =
    DefectPayload Defect
  | UpdatesPayload "DefectUpdate list"
  | IdPayload string
  | ClosePayload CloseData
  | ReopenPayload ReopenData

record SyncItem =
  operationName :: string
  item_id :: string
  payload :: Payload

text \<open>Modelled from the spec: addToSyncQueue(operationName, id, payload) of ../db/syncQueue:
  the queue "records every mutation for later replay" and "is append-only".\<close>

definition addToSyncQueue :: "SyncItem list \<Rightarrow> string \<Rightarrow> string \<Rightarrow> Payload \<Rightarrow> SyncItem list" where
  "addToSyncQueue q name i p = q @ [\<lparr>operationName = name, item_id = i, payload = p\<rparr>]"

text \<open>Modelled from the spec: getSyncQueueItems of ../db/syncQueue: the pending items.\<close>

definition getSyncQueueItems :: "SyncItem list \<Rightarrow> SyncItem list" where
  "getSyncQueueItems q = q"

section \<open>The reducer state\<close>

typedecl DefectSettings

record Summary =
  sum_total :: nat
  sum_open :: nat
  sum_overdue :: nat
  sum_unsafe :: nat

record DefectsState =
  defects :: "Defect list"
  currentDefect :: "Defect option"
  summary :: Summary
  settings :: "DefectSettings option"
  syncQueueCount :: nat
  loading :: bool
  error :: "string option"

datatype DefectsAction =
    SET_LOADING bool
  | SET_ERROR "string option"
  | SET_DEFECTS "Defect list"
  | SET_CURRENT_DEFECT "Defect option"
  | SET_SUMMARY Summary
  | SET_SETTINGS DefectSettings
  | SET_SYNC_QUEUE_COUNT nat
  | ADD_DEFECT Defect
  | UPDATE_DEFECT Defect
  | REMOVE_DEFECT string

fun defectsReducer :: "DefectsState \<Rightarrow> DefectsAction \<Rightarrow> DefectsState" where
  "defectsReducer s (SET_LOADING p) = s\<lparr>loading := p\<rparr>"
| "defectsReducer s (SET_ERROR p) = s\<lparr>error := p\<rparr>"
| "defectsReducer s (SET_DEFECTS p) = s\<lparr>defects := p\<rparr>"
| "defectsReducer s (SET_CURRENT_DEFECT p) = s\<lparr>currentDefect := p\<rparr>"
| "defectsReducer s (SET_SUMMARY p) = s\<lparr>summary := p\<rparr>"
| "defectsReducer s (SET_SETTINGS p) = s\<lparr>settings := Some p\<rparr>"
| "defectsReducer s (SET_SYNC_QUEUE_COUNT p) = s\<lparr>syncQueueCount := p\<rparr>"
| "defectsReducer s (ADD_DEFECT p) = s\<lparr>defects := defects s @ [p]\<rparr>"
| "defectsReducer s (UPDATE_DEFECT p) =
     s\<lparr>defects := map (\<lambda>d. if defect_id d = defect_id p then p else d) (defects s),
       currentDefect := (if map_option defect_id (currentDefect s) = Some (defect_id p)
                         then Some p else currentDefect s)\<rparr>"
| "defectsReducer s (REMOVE_DEFECT p) =
     s\<lparr>defects := filter (\<lambda>d. defect_id d \<noteq> p) (defects s),
       currentDefect := (if map_option defect_id (currentDefect s) = Some p
                         then None else currentDefect s)\<rparr>"

section \<open>Operations of the provider\<close>

text \<open>
  An operation of \<open>DefectsProvider\<close> runs on the repository table, the sync queue and the
  reducer state, and either returns a value or throws; what it wrote before throwing
  stays written. \<open>await\<close> on a repository call is sequential composition.
\<close>

record World =
  db :: "Defect list"
  syncQueue :: "SyncItem list"
  state :: DefectsState

text \<open>
  What an operation reads from outside the three stores: \<open>clock k\<close> is the value of the
  \<open>k\<close>-th \<open>new Date().toISOString()\<close> of the call, \<open>randomUUID\<close> the value of
  \<open>crypto.randomUUID()\<close>, \<open>assigned\<close> and \<open>newCommentId\<close> the values the repository assigns,
  and \<open>getDefectSummary\<close> the summary scan of ../db/repository, whose code is not part
  of the sources verified here and which is left open.
\<close>

record Env =
  clock :: "nat \<Rightarrow> string"
  randomUUID :: string
  assigned :: Assigned
  newCommentId :: string
  getDefectSummary :: "Defect list \<Rightarrow> Summary"

type_synonym 'a operation = "World \<Rightarrow> (exn + 'a) \<times> World"

definition succeed :: "'a \<Rightarrow> 'a operation" where
  "succeed x w = (Inr x, w)"

definition throw :: "exn \<Rightarrow> 'a operation" where
  "throw e w = (Inl e, w)"

definition andThen :: "'a operation \<Rightarrow> ('a \<Rightarrow> 'b operation) \<Rightarrow> 'b operation" where
  "andThen m f w = (case m w of (Inl e, w') \<Rightarrow> (Inl e, w') | (Inr x, w') \<Rightarrow> f x w')"

definition tryCatch :: "'a operation \<Rightarrow> (exn \<Rightarrow> 'a operation) \<Rightarrow> 'a operation" where
  "tryCatch m handler w = (case m w of (Inl e, w') \<Rightarrow> handler e w' | (Inr x, w') \<Rightarrow> (Inr x, w'))"

definition dispatch :: "DefectsAction \<Rightarrow> unit operation" where
  "dispatch a w = (Inr (), w\<lparr>state := defectsReducer (state w) a\<rparr>)"

definition readDb :: "(Defect list \<Rightarrow> 'a) \<Rightarrow> 'a operation" where
  "readDb f w = (Inr (f (db w)), w)"

definition writeDb :: "(Defect list \<Rightarrow> exn + 'a \<times> Defect list) \<Rightarrow> 'a operation" where
  "writeDb f w = (case f (db w) of Inl e \<Rightarrow> (Inl e, w) | Inr (x, tbl) \<Rightarrow> (Inr x, w\<lparr>db := tbl\<rparr>))"

definition enqueue :: "string \<Rightarrow> string \<Rightarrow> Payload \<Rightarrow> unit operation" where
  "enqueue name i p w = (Inr (), w\<lparr>syncQueue := addToSyncQueue (syncQueue w) name i p\<rparr>)"

text \<open>The handler of every mutating callback: \<open>dispatch SET_ERROR\<close>, then \<open>throw error\<close>.\<close>

definition rethrow :: "exn \<Rightarrow> 'a operation" where
  "rethrow e = andThen (dispatch (SET_ERROR (Some (message e)))) (\<lambda>_. throw e)"

definition startsWith :: "string \<Rightarrow> string \<Rightarrow> bool" where
  "startsWith s p = (take (length p) s = p)"

text \<open>loadDefects is modelled for the call without a filter, \<open>loadDefects()\<close>, the only
  form in which the operations below use it.\<close>

definition loadDefects :: "unit operation" where
  "loadDefects =
     tryCatch
       (andThen (readDb queryDefects) (\<lambda>ds. dispatch (SET_DEFECTS ds)))
       (\<lambda>e. dispatch (SET_ERROR (Some (message e))))"

definition loadDefect :: "string \<Rightarrow> unit operation" where
  "loadDefect i =
     tryCatch
       (andThen (readDb (\<lambda>tbl. getDefectById tbl i)) (\<lambda>defect.
        andThen (if defect = None \<and> startsWith i ''DEF-''
                 then readDb (\<lambda>tbl. getDefectByCode tbl i) else succeed defect) (\<lambda>defect.
        (case defect of
           Some d \<Rightarrow> dispatch (SET_CURRENT_DEFECT (Some d))
         | None \<Rightarrow> dispatch (SET_CURRENT_DEFECT None)))))
       (\<lambda>e. andThen (dispatch (SET_ERROR (Some (message e)))) (\<lambda>_.
             dispatch (SET_CURRENT_DEFECT None)))"

definition loadSummary :: "Env \<Rightarrow> unit operation" where
  "loadSummary env =
     tryCatch
       (andThen (readDb (getDefectSummary env)) (\<lambda>s. dispatch (SET_SUMMARY s)))
       (\<lambda>e. dispatch (SET_ERROR (Some (message e))))"

definition refreshSyncQueue :: "unit operation" where
  "refreshSyncQueue =
     tryCatch
       (andThen (\<lambda>w. (Inr (getSyncQueueItems (syncQueue w)), w)) (\<lambda>items.
        dispatch (SET_SYNC_QUEUE_COUNT (length items))))
       (\<lambda>e. dispatch (SET_ERROR (Some (message e))))"

definition createNewDefect :: "Env \<Rightarrow> DefectFields \<Rightarrow> Defect operation" where
  "createNewDefect env defect =
     tryCatch
       (andThen (writeDb (\<lambda>tbl. Inr (createDefect (assigned env) tbl defect None))) (\<lambda>newDefect.
        andThen (dispatch (ADD_DEFECT newDefect)) (\<lambda>_.
        andThen (enqueue ''createDefect'' (defect_id newDefect) (DefectPayload newDefect)) (\<lambda>_.
        andThen refreshSyncQueue (\<lambda>_.
        andThen (loadSummary env) (\<lambda>_.
        succeed newDefect))))))
       rethrow"

definition updateDefectData :: "Env \<Rightarrow> string \<Rightarrow> DefectUpdate list \<Rightarrow> Defect operation" where
  "updateDefectData env i updates =
     tryCatch
       (andThen (writeDb (\<lambda>tbl. updateDefect tbl i updates)) (\<lambda>updated.
        andThen (dispatch (UPDATE_DEFECT updated)) (\<lambda>_.
        andThen (enqueue ''updateDefect'' i (UpdatesPayload updates)) (\<lambda>_.
        andThen refreshSyncQueue (\<lambda>_.
        andThen (loadSummary env) (\<lambda>_.
        succeed updated))))))
       rethrow"

definition deleteDefectData :: "Env \<Rightarrow> string \<Rightarrow> unit operation" where
  "deleteDefectData env i =
     tryCatch
       (andThen (writeDb (\<lambda>tbl. Inr ((), deleteDefect tbl i))) (\<lambda>_.
        andThen (dispatch (REMOVE_DEFECT i)) (\<lambda>_.
        andThen (enqueue ''deleteDefect'' i (IdPayload i)) (\<lambda>_.
        andThen refreshSyncQueue (\<lambda>_.
        loadSummary env)))))
       rethrow"

definition addDefectComment :: "Env \<Rightarrow> string \<Rightarrow> NewComment \<Rightarrow> unit operation" where
  "addDefectComment env defectId comment =
     tryCatch
       (andThen (writeDb (\<lambda>tbl. addComment (newCommentId env) tbl defectId comment)) (\<lambda>_.
        andThen (loadDefect defectId) (\<lambda>_.
        loadDefects)))
       rethrow"

definition closeDefect :: "Env \<Rightarrow> string \<Rightarrow> CloseData \<Rightarrow> string \<Rightarrow> string \<Rightarrow> unit operation" where
  "closeDefect env defectId data userId userName =
     tryCatch
       (andThen (readDb (\<lambda>tbl. getDefectById tbl defectId)) (\<lambda>found.
        case found of
          None \<Rightarrow> throw (Error ''Defect not found'')
        | Some defect \<Rightarrow>
            (let now = clock env 0;
                 closeSummary = ''Action: '' @ close_actionTaken data @ ''. '' @ close_notes data
             in
             andThen (updateDefectData env defectId
               [Set_status Closed,
                Set_closedAt (Some now),
                Set_closedBy (Some userId),
                Set_closedByName (Some userName),
                Set_actionTaken (close_actionTaken data),
                Set_comments (comments defect @
                  [\<lparr>comment_id = randomUUID env, comment_at = now, comment_by = userId,
                    comment_byName = userName, comment_text = closeSummary\<rparr>]),
                Set_attachments (attachments defect @ close_attachments data),
                Set_unsafeDoNotUse (if close_returnToService data = Some True then False
                                    else unsafeDoNotUse defect),
                Set_updatedBy userId,
                Set_updatedByName userName]) (\<lambda>_.
             andThen (writeDb (\<lambda>tbl. addHistoryEntry tbl defectId
               \<lparr>entry_at = now, entry_by = userId, entry_byName = userName,
                 entry_type = ''close'', entry_summary = closeSummary,
                 entry_data = Some \<lparr>data_actionTaken = close_actionTaken data,
                                    data_returnToService = close_returnToService data\<rparr>\<rparr>)) (\<lambda>_.
             andThen (if close_returnToService data = Some True \<and> unsafeDoNotUse defect
                      then writeDb (\<lambda>tbl. addHistoryEntry tbl defectId
                        \<lparr>entry_at = now, entry_by = userId, entry_byName = userName,
                          entry_type = ''status_change'',
                          entry_summary = ''Asset returned to service - Unsafe flag cleared'',
                          entry_data = None\<rparr>)
                      else succeed ()) (\<lambda>_.
             andThen (enqueue ''closeDefect'' defectId (ClosePayload data)) (\<lambda>_.
             refreshSyncQueue)))))))
       rethrow"

definition reopenDefect :: "Env \<Rightarrow> string \<Rightarrow> ReopenData \<Rightarrow> string \<Rightarrow> string \<Rightarrow> string operation" where
  "reopenDefect env defectId data userId userName =
     tryCatch
       (andThen (readDb (\<lambda>tbl. getDefectById tbl defectId)) (\<lambda>found.
        case found of
          None \<Rightarrow> throw (Error ''Defect not found'')
        | Some defect \<Rightarrow>
            if isNewOccurrence data then
              andThen (writeDb (\<lambda>tbl. Inr (createDefect (assigned env) tbl
                \<lparr>title = title defect,
                  description = ''Recurrence of '' @ defectCode defect @ '': '' @ reason data,
                  severity = severity defect,
                  severityModel = severityModel defect,
                  status = Open,
                  assetId = assetId defect,
                  siteId = siteId defect,
                  siteName = None,
                  locationId = locationId defect,
                  assignedToId = assignedToId defect,
                  assignedToName = assignedToName defect,
                  targetRectificationDate = targetRectificationDate defect,
                  complianceTags = complianceTags defect,
                  actions = actions defect,
                  attachments = (case reopen_attachments data of Some a \<Rightarrow> a | None \<Rightarrow> []),
                  beforeAfterRequired = beforeAfterRequired defect,
                  comments = [],
                  createdAt = clock env 0,
                  createdBy = userId,
                  createdByName = userName,
                  updatedAt = clock env 1,
                  updatedBy = userId,
                  updatedByName = userName,
                  reopenedCount = None,
                  recurrenceCount = None,
                  parentDefectId = None,
                  closedAt = None,
                  closedBy = None,
                  closedByName = None,
                  actionTaken = None\<rparr>
                (Some [])))) (\<lambda>newDefect.
              andThen (updateDefectData env (defect_id newDefect)
                [Set_parentDefectId (defect_id defect), Set_recurrenceCount 0]) (\<lambda>_.
              andThen (updateDefectData env (defect_id defect)
                [Set_recurrenceCount ((case recurrenceCount defect of Some n \<Rightarrow> n | None \<Rightarrow> 0) + 1)]) (\<lambda>_.
              succeed (defect_id newDefect))))
            else
              andThen (updateDefectData env defectId
                [Set_status Open,
                 Set_reopenedCount (map_option Suc (reopenedCount defect)),
                 Set_closedAt None,
                 Set_closedBy None,
                 Set_closedByName None,
                 Set_attachments (case reopen_attachments data of
                                    Some a \<Rightarrow> attachments defect @ a
                                  | None \<Rightarrow> attachments defect),
                 Set_updatedBy userId,
                 Set_updatedByName userName]) (\<lambda>_.
              andThen (writeDb (\<lambda>tbl. addHistoryEntry tbl defectId
                \<lparr>entry_at = clock env 0, entry_by = userId, entry_byName = userName,
                  entry_type = ''reopen'',
                  entry_summary = ''Defect reopened: '' @ reason data,
                  entry_data = None\<rparr>)) (\<lambda>_.
              andThen (addDefectComment env defectId
                \<lparr>nc_at = clock env 1, nc_by = userId, nc_byName = userName,
                  nc_text = ''Reopened: '' @ reason data\<rparr>) (\<lambda>_.
              andThen (enqueue ''reopenDefect'' defectId (ReopenPayload data)) (\<lambda>_.
              andThen refreshSyncQueue (\<lambda>_.
              succeed defectId)))))))
       rethrow"

section \<open>Bulk status update of assets\<close>

text \<open>
  \<open>AssetsPage.handleBulkUpdate\<close> calls \<open>bulkUpdateAssets\<close> of \<open>../services\<close> and
  \<open>validateStatusCombination\<close> of \<open>../utils/statusValidation\<close>; the code of neither is part of
  the sources verified here. The coordinator is modelled from section 4.2 of the
  specification. The validity table of the validator is not given anywhere, so the
  validator is a parameter of the coordinator.
\<close>

datatype OperationalStatus = InUse | OutOfUse | OffHirePending | OffHired | Quarantined | Archived

datatype LifecycleStatus = Active | Decommissioned | Disposed | Expected

datatype ComplianceRAG = Red | Amber | Green

record Asset =
  asset_id :: string
  operationalStatus :: OperationalStatus
  lifecycleStatus :: LifecycleStatus
  complianceRAG :: ComplianceRAG
  ownership :: string
  criticality :: string
  openIssuesCount :: "nat option"

text \<open>\<open>Partial<Asset>\<close> as handleBulkUpdate builds it: at most the two status fields.\<close>

record AssetUpdates =
  upd_operationalStatus :: "OperationalStatus option"
  upd_lifecycleStatus :: "LifecycleStatus option"

text \<open>The result type of validateStatusCombination, as handleBulkUpdate reads it.\<close>

record Validation =
  isValid :: bool
  validation_message :: "string option"
  autoCorrect :: "AssetUpdates option"

type_synonym validator = "OperationalStatus \<Rightarrow> LifecycleStatus \<Rightarrow> Validation"

record BulkError =
  error_id :: string
  error_reason :: string

record BulkResult =
  updated :: nat
  errors :: "BulkError list"

text \<open>Modelled from the spec: the asset collaborator that bulkUpdateAssets loads from
  ("loads asset (collaborator)"), a lookup by id.\<close>

definition getAssetById :: "Asset list \<Rightarrow> string \<Rightarrow> Asset option" where
  "getAssetById store i = find (\<lambda>a. asset_id a = i) store"

text \<open>Modelled from the spec: the asset collaborator that bulkUpdateAssets persists to
  ("persists (collaborator)"), the write of a whole record under its id.\<close>

fun putAsset :: "Asset \<Rightarrow> Asset list \<Rightarrow> Asset list" where
  "putAsset a [] = [a]"
| "putAsset a (x # xs) = (if asset_id x = asset_id a then a # xs else x # putAsset a xs)"

text \<open>Modelled from the spec: the merge of \<open>updates\<close> into an asset; a field that is not
  part of \<open>updates\<close> keeps its value.\<close>

definition applyAssetUpdates :: "AssetUpdates \<Rightarrow> Asset \<Rightarrow> Asset" where
  "applyAssetUpdates u a =
     a\<lparr>operationalStatus := (case upd_operationalStatus u of Some s \<Rightarrow> s | None \<Rightarrow> operationalStatus a),
       lifecycleStatus := (case upd_lifecycleStatus u of Some s \<Rightarrow> s | None \<Rightarrow> lifecycleStatus a)\<rparr>"

text \<open>Modelled from the spec: "applies autoCorrect transparently": a status the validator
  proposes replaces the requested one.\<close>

definition withAutoCorrect :: "AssetUpdates \<Rightarrow> AssetUpdates \<Rightarrow> AssetUpdates" where
  "withAutoCorrect u c =
     \<lparr>upd_operationalStatus = (case upd_operationalStatus c of Some s \<Rightarrow> Some s | None \<Rightarrow> upd_operationalStatus u),
       upd_lifecycleStatus = (case upd_lifecycleStatus c of Some s \<Rightarrow> Some s | None \<Rightarrow> upd_lifecycleStatus u)\<rparr>"

text \<open>Modelled from the spec: one round of bulkUpdateAssets, section 4.2: "For each id:
  loads asset (collaborator), re-validates the resulting status combination via 4.1 if
  both operational and lifecycle status are part of updates, applies autoCorrect
  transparently"; the failures are "not found, validation failure not
  auto-correctable". \<open>Inl\<close> carries the reason of a failure, \<open>Inr\<close> the asset to persist.\<close>

definition updateAsset :: "validator \<Rightarrow> Asset list \<Rightarrow> AssetUpdates \<Rightarrow> string \<Rightarrow> string + Asset" where
  "updateAsset validate store updates i =
     (case getAssetById store i of
        None \<Rightarrow> Inl ''Asset not found''
      | Some a \<Rightarrow>
          (case (upd_operationalStatus updates, upd_lifecycleStatus updates) of
             (Some os, Some ls) \<Rightarrow>
               (let v = validate os ls in
                case autoCorrect v of
                  Some c \<Rightarrow> Inr (applyAssetUpdates (withAutoCorrect updates c) a)
                | None \<Rightarrow>
                    if isValid v then Inr (applyAssetUpdates updates a)
                    else Inl (case validation_message v of
                                Some m \<Rightarrow> m | None \<Rightarrow> ''Invalid status combination''))
           | _ \<Rightarrow> Inr (applyAssetUpdates updates a)))"

text \<open>Modelled from the spec: the loop of bulkUpdateAssets over the ids in input order:
  a success "persists (collaborator), counts success", a failure "records {id, reason}
  and continues".\<close>

fun bulkUpdateLoop :: "validator \<Rightarrow> AssetUpdates \<Rightarrow> string list \<Rightarrow> BulkResult \<times> Asset list \<Rightarrow> BulkResult \<times> Asset list" where
  "bulkUpdateLoop validate updates [] acc = acc"
| "bulkUpdateLoop validate updates (i # ids) (r, store) =
     (case updateAsset validate store updates i of
        Inl why \<Rightarrow> bulkUpdateLoop validate updates ids
                    (r\<lparr>errors := errors r @ [\<lparr>error_id = i, error_reason = why\<rparr>]\<rparr>, store)
      | Inr a \<Rightarrow> bulkUpdateLoop validate updates ids (r\<lparr>updated := updated r + 1\<rparr>, putAsset a store))"

text \<open>Modelled from the spec: bulkUpdateAssets of ../services, with the contract
  \<open>bulkUpdateAssets(ids, updates) -> { updated: int, errors: list<{id, reason}> }\<close>.
  The result has no error alternative: a failure of one item is an entry of \<open>errors\<close>.\<close>

definition bulkUpdateAssets :: "validator \<Rightarrow> Asset list \<Rightarrow> string list \<Rightarrow> AssetUpdates \<Rightarrow> BulkResult \<times> Asset list" where
  "bulkUpdateAssets validate store ids updates =
     bulkUpdateLoop validate updates ids (\<lparr>updated = 0, errors = []\<rparr>, store)"

text \<open>
  The invalid items in the words of the specification: an id is invalid when it is not
  found or when the requested status pair fails validation and cannot be auto-corrected.
  Both are read off the store and the request as they are before the batch starts.
\<close>

definition notAutoCorrectable :: "validator \<Rightarrow> AssetUpdates \<Rightarrow> bool" where
  "notAutoCorrectable validate updates =
     (case (upd_operationalStatus updates, upd_lifecycleStatus updates) of
        (Some os, Some ls) \<Rightarrow> \<not> isValid (validate os ls) \<and> autoCorrect (validate os ls) = None
      | _ \<Rightarrow> False)"

definition itemFails :: "validator \<Rightarrow> Asset list \<Rightarrow> AssetUpdates \<Rightarrow> string \<Rightarrow> bool" where
  "itemFails validate store updates i =
     (getAssetById store i = None \<or> notAutoCorrectable validate updates)"

section \<open>Example values\<close>

text \<open>
  The second seed defect (the unsafe E-Stop defect), the same defect after it was
  closed, the initial reducer state of the provider, and the close request of the
  specification's example.
\<close>

definition defect1 :: Defect where
  "defect1 =
     \<lparr>title = ''Safety-critical: E-Stop not latching on control panel'',
       description = ''E-Stop button on operator panel does not latch when pressed.'',
       severity = ''High'',
       severityModel = ''LMH'',
       status = Open,
       assetId = ''AST-000147'',
       siteId = ''2'',
       siteName = Some ''West Ruislip'',
       locationId = None,
       assignedToId = None,
       assignedToName = None,
       targetRectificationDate = Some ''2025-12-28'',
       complianceTags = [],
       actions = [],
       attachments = [],
       beforeAfterRequired = True,
       comments = [],
       createdAt = ''2025-12-27T09:40:00.000Z'',
       createdBy = ''user-2'',
       createdByName = ''Supervisor (Shift A)'',
       updatedAt = ''2025-12-27T09:40:00.000Z'',
       updatedBy = ''user-2'',
       updatedByName = ''Supervisor (Shift A)'',
       reopenedCount = Some 0,
       recurrenceCount = None,
       parentDefectId = None,
       closedAt = None,
       closedBy = None,
       closedByName = None,
       actionTaken = None,
       defect_id = ''d1'',
       defectCode = ''DEF-000002'',
       unsafeDoNotUse = True,
       history = []\<rparr>"

definition closedDefect1 :: Defect where
  "closedDefect1 =
     defect1\<lparr>status := Closed,
             closedAt := Some ''2025-12-29T16:00:00.000Z'',
             closedBy := Some ''user-4'',
             closedByName := Some ''Engineer'',
             actionTaken := Some ''Repaired'',
             unsafeDoNotUse := False\<rparr>"

definition initialState :: DefectsState where
  "initialState =
     \<lparr>defects = [], currentDefect = None,
       summary = \<lparr>sum_total = 0, sum_open = 0, sum_overdue = 0, sum_unsafe = 0\<rparr>,
       settings = None, syncQueueCount = 0, loading = False, error = None\<rparr>"

definition world1 :: World where
  "world1 = \<lparr>db = [defect1], syncQueue = [], state = initialState\<rparr>"

definition world2 :: World where
  "world2 = \<lparr>db = [closedDefect1], syncQueue = [], state = initialState\<rparr>"

definition env1 :: Env where
  "env1 =
     \<lparr>clock = (\<lambda>k. ''2026-01-03T08:00:00.000Z''),
       randomUUID = ''c-1'',
       assigned = \<lparr>newDefectId = ''d2'', newDefectCode = ''DEF-000006'',
                    newUnsafeDoNotUse = False, newHistory = []\<rparr>,
       newCommentId = ''c-2'',
       getDefectSummary = (\<lambda>tbl. \<lparr>sum_total = length tbl, sum_open = 0,
                                   sum_overdue = 0, sum_unsafe = 0\<rparr>)\<rparr>"

definition closeData1 :: CloseData where
  "closeData1 =
     \<lparr>close_actionTaken = ''Replaced seal'', close_notes = ''Tested ok'',
       close_attachments = [], close_returnToService = Some True\<rparr>"

definition closeData2 :: CloseData where
  "closeData2 =
     \<lparr>close_actionTaken = ''Replaced seal'', close_notes = ''Tested ok'',
       close_attachments = [''photo-1''], close_returnToService = None\<rparr>"

definition reopenNew :: ReopenData where
  "reopenNew = \<lparr>isNewOccurrence = True, reason = ''Latch failed again'', reopen_attachments = None\<rparr>"

definition reopenSame :: ReopenData where
  "reopenSame = \<lparr>isNewOccurrence = False, reason = ''Latch failed again'',
                  reopen_attachments = Some [''photo-2'']\<rparr>"

text \<open>
  The store after the closed defect d1 of \<open>world2\<close> has recurred as d2, and after that
  recurrence d2 has been closed in its turn.
\<close>

definition worldRecurred :: World where
  "worldRecurred = snd (reopenDefect env1 ''d1'' reopenNew ''user-2'' ''Supervisor'' world2)"

definition worldChildClosed :: World where
  "worldChildClosed = snd (closeDefect env1 ''d2'' closeData2 ''user-4'' ''Engineer'' worldRecurred)"

text \<open>Two assets and a validator that rejects Disposed + InUse, the illegal pair the
  data model names, and accepts every other pair.\<close>

definition asset1 :: Asset where
  "asset1 = \<lparr>asset_id = ''AST-000001'', operationalStatus = InUse, lifecycleStatus = Active,
              complianceRAG = Green, ownership = ''Owned'', criticality = ''High'',
              openIssuesCount = None\<rparr>"

definition asset2 :: Asset where
  "asset2 = \<lparr>asset_id = ''AST-000002'', operationalStatus = OutOfUse, lifecycleStatus = Active,
              complianceRAG = Amber, ownership = ''Hired'', criticality = ''Low'',
              openIssuesCount = Some 2\<rparr>"

definition rejectDisposedInUse :: validator where
  "rejectDisposedInUse os ls =
     (if os = InUse \<and> ls = Disposed
      then \<lparr>isValid = False, validation_message = Some ''Disposed assets cannot be in use'',
            autoCorrect = None\<rparr>
      else \<lparr>isValid = True, validation_message = None, autoCorrect = None\<rparr>)"

section \<open>Facts about the repository model\<close>

lemma getDefectById_putDefect:
  "getDefectById (putDefect d tbl) i = (if i = defect_id d then Some d else getDefectById tbl i)"
  by (induction tbl) (auto simp: getDefectById_def)

lemma getDefectById_id: "getDefectById tbl i = Some d \<Longrightarrow> defect_id d = i"
  by (auto simp: getDefectById_def find_Some_iff)

lemmas operation_defs =
  succeed_def throw_def andThen_def tryCatch_def dispatch_def readDb_def writeDb_def
  enqueue_def rethrow_def updateDefectData_def updateDefect_def refreshSyncQueue_def
  loadSummary_def addToSyncQueue_def getSyncQueueItems_def addHistoryEntry_def Let_def

lemmas example_defs =
  defect1_def closedDefect1_def world1_def world2_def env1_def closeData1_def closeData2_def
  reopenNew_def reopenSame_def initialState_def getDefectById_def getDefectByCode_def

section \<open>closeDefect\<close>

text \<open>
  What closeDefect leaves behind for a defect that exists, whatever its status: it
  returns normally, the stored record is the old one with the close-out fields merged
  and the history entries appended, and the queue has two more items.
\<close>

lemma closeDefect_found:
  assumes "getDefectById (db w) i = Some d"
  shows "fst (closeDefect env i data userId userName w) = Inr ()"
    and "getDefectById (db (snd (closeDefect env i data userId userName w))) i =
      Some (d\<lparr>status := Closed, closedAt := Some (clock env 0), closedBy := Some userId,
              closedByName := Some userName, actionTaken := Some (close_actionTaken data),
              comments := comments d @
                [\<lparr>comment_id = randomUUID env, comment_at = clock env 0, comment_by = userId,
                  comment_byName = userName,
                  comment_text = ''Action: '' @ close_actionTaken data @ ''. '' @ close_notes data\<rparr>],
              attachments := attachments d @ close_attachments data,
              unsafeDoNotUse := (if close_returnToService data = Some True then False
                                 else unsafeDoNotUse d),
              updatedBy := userId, updatedByName := userName,
              history := history d @
                \<lparr>entry_at = clock env 0, entry_by = userId, entry_byName = userName,
                  entry_type = ''close'',
                  entry_summary = ''Action: '' @ close_actionTaken data @ ''. '' @ close_notes data,
                  entry_data = Some \<lparr>data_actionTaken = close_actionTaken data,
                                     data_returnToService = close_returnToService data\<rparr>\<rparr> #
                (if close_returnToService data = Some True \<and> unsafeDoNotUse d
                 then [\<lparr>entry_at = clock env 0, entry_by = userId, entry_byName = userName,
                        entry_type = ''status_change'',
                        entry_summary = ''Asset returned to service - Unsafe flag cleared'',
                        entry_data = None\<rparr>]
                 else [])\<rparr>)"
    and "map operationName (syncQueue (snd (closeDefect env i data userId userName w))) =
           map operationName (syncQueue w) @ [''updateDefect'', ''closeDefect'']"
  using assms getDefectById_id[OF assms]
  by (simp_all add: closeDefect_def operation_defs getDefectById_putDefect)

text \<open>
  C4. For every defect whose status is not Closed, closeDefect sets status to Closed,
  closedAt to now, closedBy and closedByName to the actor and actionTaken to the given
  action; it appends the given attachments, exactly one comment, whose text is
  "Action: {actionTaken}. {notes}" and so contains the action verbatim, and exactly one
  history entry of type close. (The only other entry it can append is the
  status_change entry of a return to service, which comes after the close entry.)
\<close>

theorem closeDefect_closes:
  assumes "getDefectById (db w) defectId = Some d"
    and "status d \<noteq> Closed"
  shows "fst (closeDefect env defectId data userId userName w) = Inr () \<and>
    (\<exists>d' c e rest.
       getDefectById (db (snd (closeDefect env defectId data userId userName w))) defectId = Some d' \<and>
       status d' = Closed \<and>
       closedAt d' = Some (clock env 0) \<and>
       closedBy d' = Some userId \<and>
       closedByName d' = Some userName \<and>
       actionTaken d' = Some (close_actionTaken data) \<and>
       attachments d' = attachments d @ close_attachments data \<and>
       comments d' = comments d @ [c] \<and>
       comment_text c = ''Action: '' @ close_actionTaken data @ ''. '' @ close_notes data \<and>
       comment_by c = userId \<and> comment_at c = clock env 0 \<and>
       history d' = history d @ e # rest \<and>
       entry_type e = ''close'' \<and>
       entry_summary e = comment_text c \<and>
       filter (\<lambda>x. entry_type x = ''close'') (e # rest) = [e] \<and>
       (rest = [] \<or> close_returnToService data = Some True \<and> unsafeDoNotUse d))"
  using closeDefect_found[OF assms(1), of env data userId userName]
  by simp

theorem closeDefect_closes_witness:
  "getDefectById (db world1) ''d1'' = Some defect1 \<and> status defect1 \<noteq> Closed \<and>
   fst (closeDefect env1 ''d1'' closeData2 ''user-4'' ''Engineer'' world1) = Inr () \<and>
   map_option status (getDefectById
     (db (snd (closeDefect env1 ''d1'' closeData2 ''user-4'' ''Engineer'' world1))) ''d1'') = Some Closed \<and>
   map_option (map comment_text \<circ> comments) (getDefectById
     (db (snd (closeDefect env1 ''d1'' closeData2 ''user-4'' ''Engineer'' world1))) ''d1'') =
     Some [''Action: Replaced seal. Tested ok''] \<and>
   map_option (map entry_type \<circ> history) (getDefectById
     (db (snd (closeDefect env1 ''d1'' closeData2 ''user-4'' ''Engineer'' world1))) ''d1'') =
     Some [''close'']"
proof -
  have h1: "getDefectById (db world1) ''d1'' = Some defect1"
    by (simp add: example_defs)
  have h2: "status defect1 \<noteq> Closed"
    by (simp add: example_defs)
  from closeDefect_closes[OF h1 h2, of env1 closeData2 "''user-4''" "''Engineer''"]
  show ?thesis
    using h1 h2 by (auto simp: defect1_def closeData2_def)
qed

text \<open>
  C5. If closeDefect is called with returnToService = true on a defect whose
  unsafeDoNotUse flag is set, the stored defect has status Closed and unsafeDoNotUse
  false, and exactly two history entries are appended: one of type close, then one of
  type status_change that records the clearing of the flag.
\<close>

theorem closeDefect_returnToService:
  assumes "getDefectById (db w) defectId = Some d"
    and "close_returnToService data = Some True"
    and "unsafeDoNotUse d"
  shows "\<exists>d' e1 e2.
       getDefectById (db (snd (closeDefect env defectId data userId userName w))) defectId = Some d' \<and>
       status d' = Closed \<and>
       \<not> unsafeDoNotUse d' \<and>
       history d' = history d @ [e1, e2] \<and>
       length (history d') = length (history d) + 2 \<and>
       entry_type e1 = ''close'' \<and>
       entry_type e2 = ''status_change'' \<and>
       entry_summary e2 = ''Asset returned to service - Unsafe flag cleared''"
  using closeDefect_found(2)[OF assms(1), of env data userId userName] assms(2,3)
  by simp

theorem closeDefect_returnToService_witness:
  "getDefectById (db world1) ''d1'' = Some defect1 \<and>
   close_returnToService closeData1 = Some True \<and>
   unsafeDoNotUse defect1 \<and>
   map_option status (getDefectById
     (db (snd (closeDefect env1 ''d1'' closeData1 ''user-4'' ''Engineer'' world1))) ''d1'') = Some Closed \<and>
   map_option unsafeDoNotUse (getDefectById
     (db (snd (closeDefect env1 ''d1'' closeData1 ''user-4'' ''Engineer'' world1))) ''d1'') = Some False \<and>
   map_option (map entry_type \<circ> history) (getDefectById
     (db (snd (closeDefect env1 ''d1'' closeData1 ''user-4'' ''Engineer'' world1))) ''d1'') =
     Some [''close'', ''status_change'']"
proof -
  have h1: "getDefectById (db world1) ''d1'' = Some defect1"
    by (simp add: example_defs)
  have h2: "close_returnToService closeData1 = Some True"
    by (simp add: closeData1_def)
  have h3: "unsafeDoNotUse defect1"
    by (simp add: defect1_def)
  from closeDefect_returnToService[OF h1 h2 h3, of env1 "''user-4''" "''Engineer''"]
  show ?thesis
    using h1 h2 h3 by (auto simp: defect1_def)
qed




section \<open>A defect id that does not resolve\<close>

text \<open>
  C9. When defectId does not resolve to a record, closeDefect and reopenDefect throw
  'Defect not found' before any mutation: the repository table and the sync queue are
  what they were, and so is the defect list of the reducer state; the only trace is the
  error message that the catch block dispatches.
\<close>

theorem notFound_no_mutation:
  assumes "getDefectById (db w) defectId = None"
  shows "closeDefect env defectId cdata userId userName w =
           (Inl (Error ''Defect not found''), w\<lparr>state := (state w)\<lparr>error := Some ''Defect not found''\<rparr>\<rparr>) \<and>
         reopenDefect env defectId rdata userId userName w =
           (Inl (Error ''Defect not found''), w\<lparr>state := (state w)\<lparr>error := Some ''Defect not found''\<rparr>\<rparr>) \<and>
         db (snd (closeDefect env defectId cdata userId userName w)) = db w \<and>
         syncQueue (snd (closeDefect env defectId cdata userId userName w)) = syncQueue w \<and>
         defects (state (snd (closeDefect env defectId cdata userId userName w))) = defects (state w) \<and>
         db (snd (reopenDefect env defectId rdata userId userName w)) = db w \<and>
         syncQueue (snd (reopenDefect env defectId rdata userId userName w)) = syncQueue w \<and>
         defects (state (snd (reopenDefect env defectId rdata userId userName w))) = defects (state w)"
  using assms
  by (simp add: closeDefect_def reopenDefect_def operation_defs)

theorem notFound_no_mutation_witness:
  "getDefectById (db world1) ''d9'' = None \<and>
   fst (closeDefect env1 ''d9'' closeData1 ''user-2'' ''Supervisor'' world1) = Inl (Error ''Defect not found'') \<and>
   fst (reopenDefect env1 ''d9'' reopenNew ''user-2'' ''Supervisor'' world1) = Inl (Error ''Defect not found'') \<and>
   db (snd (closeDefect env1 ''d9'' closeData1 ''user-2'' ''Supervisor'' world1)) = [defect1] \<and>
   db (snd (reopenDefect env1 ''d9'' reopenNew ''user-2'' ''Supervisor'' world1)) = [defect1] \<and>
   syncQueue (snd (closeDefect env1 ''d9'' closeData1 ''user-2'' ''Supervisor'' world1)) = [] \<and>
   syncQueue (snd (reopenDefect env1 ''d9'' reopenNew ''user-2'' ''Supervisor'' world1)) = []"
proof -
  have h: "getDefectById (db world1) ''d9'' = None"
    by (simp add: example_defs)
  from notFound_no_mutation[OF h, of env1 closeData1 "''user-2''" "''Supervisor''" reopenNew]
  show ?thesis
    using h by (simp add: world1_def)
qed

section \<open>loadDefect\<close>

text \<open>
  C10. loadDefect looks the defect up by id first; when that finds nothing and the id
  starts with "DEF-", it looks it up again by defect code; currentDefect becomes the
  record found, and it becomes null only when every lookup made has failed.
\<close>

theorem loadDefect_lookup:
  "loadDefect i w =
     (Inr (), w\<lparr>state := (state w)\<lparr>currentDefect :=
        (case getDefectById (db w) i of
           Some d \<Rightarrow> Some d
         | None \<Rightarrow> if startsWith i ''DEF-'' then getDefectByCode (db w) i else None)\<rparr>\<rparr>) \<and>
   (currentDefect (state (snd (loadDefect i w))) = None \<longleftrightarrow>
      getDefectById (db w) i = None \<and>
      (startsWith i ''DEF-'' \<longrightarrow> getDefectByCode (db w) i = None))"
  by (simp add: loadDefect_def operation_defs split: option.splits)

theorem loadDefect_lookup_witness:
  "getDefectById (db world1) ''DEF-000002'' = None \<and>
   startsWith ''DEF-000002'' ''DEF-'' \<and>
   getDefectByCode (db world1) ''DEF-000002'' = Some defect1 \<and>
   currentDefect (state (snd (loadDefect ''DEF-000002'' world1))) = Some defect1 \<and>
   currentDefect (state (snd (loadDefect ''d1'' world1))) = Some defect1 \<and>
   currentDefect (state (snd (loadDefect ''DEF-000009'' world1))) = None \<and>
   currentDefect (state (snd (loadDefect ''d9'' world1))) = None"
proof -
  have h: "getDefectById (db world1) ''DEF-000002'' = None"
     "startsWith ''DEF-000002'' ''DEF-''"
     "getDefectByCode (db world1) ''DEF-000002'' = Some defect1"
    by (simp_all add: example_defs startsWith_def)
  have g: "getDefectById (db world1) ''d1'' = Some defect1"
     "getDefectById (db world1) ''DEF-000009'' = None"
     "getDefectByCode (db world1) ''DEF-000009'' = None"
     "getDefectById (db world1) ''d9'' = None"
     "\<not> startsWith ''d9'' ''DEF-''"
    by (simp_all add: example_defs startsWith_def)
  from loadDefect_lookup[of "''DEF-000002''" world1] loadDefect_lookup[of "''d1''" world1]
    loadDefect_lookup[of "''DEF-000009''" world1] loadDefect_lookup[of "''d9''" world1]
  show ?thesis
    using h g by simp
qed

section \<open>reopenDefect\<close>

text \<open>
  What the recurrence branch leaves behind when the id that createDefect assigns is
  not taken: the source record differs from the old one in recurrenceCount only, the
  new record is stored under the assigned id, and the queue has two more items, both
  named updateDefect.
\<close>

lemma reopenDefect_new_occurrence:
  assumes "getDefectById (db w) i = Some d"
    and "isNewOccurrence data"
    and "getDefectById (db w) (newDefectId (assigned env)) = None"
  shows "fst (reopenDefect env i data userId userName w) = Inr (newDefectId (assigned env))"
    and "getDefectById (db (snd (reopenDefect env i data userId userName w))) i =
      Some (d\<lparr>recurrenceCount := Some ((case recurrenceCount d of Some n \<Rightarrow> n | None \<Rightarrow> 0) + 1)\<rparr>)"
    and "\<exists>n. getDefectById (db (snd (reopenDefect env i data userId userName w)))
               (newDefectId (assigned env)) = Some n \<and>
          defect_id n = newDefectId (assigned env) \<and>
          parentDefectId n = Some i \<and> status n = Open \<and> history n = [] \<and> comments n = [] \<and>
          description n = ''Recurrence of '' @ defectCode d @ '': '' @ reason data \<and>
          title n = title d \<and> severity n = severity d \<and> severityModel n = severityModel d \<and>
          assetId n = assetId d \<and> siteId n = siteId d \<and>
          assignedToId n = assignedToId d \<and> assignedToName n = assignedToName d \<and>
          complianceTags n = complianceTags d \<and> actions n = actions d \<and>
          locationId n = locationId d \<and> siteName n = None \<and>
          recurrenceCount n = Some 0 \<and> reopenedCount n = None"
    and "syncQueue (snd (reopenDefect env i data userId userName w)) = syncQueue w @
      [\<lparr>operationName = ''updateDefect'', item_id = newDefectId (assigned env),
         payload = UpdatesPayload [Set_parentDefectId i, Set_recurrenceCount 0]\<rparr>,
       \<lparr>operationName = ''updateDefect'', item_id = i,
         payload = UpdatesPayload
           [Set_recurrenceCount ((case recurrenceCount d of Some n \<Rightarrow> n | None \<Rightarrow> 0) + 1)]\<rparr>]"
  using assms getDefectById_id[OF assms(1)]
  by (auto simp add: reopenDefect_def operation_defs getDefectById_putDefect createDefect_def
      DefectFields.defs Defect.defs)

text \<open>
  What the recurrence branch does for an existing defect when the id that createDefect
  assigns is not taken. The status of the source stays as it was and its recurrenceCount
  goes up by exactly one (a count that was never set counts as 0). The call returns the
  assigned id; the record stored under it has the source as its parent, status Open,
  the description "Recurrence of {code}: {reason}", empty history and comments, and the
  title, severity, asset, siteId, locationId, assignee, complianceTags and actions of
  the source. The name of the site is not among the fields passed to createDefect: the
  new record has no siteName.
\<close>

lemma reopenDefect_recurrence:
  assumes "getDefectById (db w) defectId = Some d"
    and "isNewOccurrence data"
    and "getDefectById (db w) (newDefectId (assigned env)) = None"
  shows "fst (reopenDefect env defectId data userId userName w) = Inr (newDefectId (assigned env)) \<and>
    newDefectId (assigned env) \<noteq> defectId \<and>
    (\<exists>src new.
       getDefectById (db (snd (reopenDefect env defectId data userId userName w))) defectId = Some src \<and>
       status src = status d \<and>
       recurrenceCount src = Some ((case recurrenceCount d of Some n \<Rightarrow> n | None \<Rightarrow> 0) + 1) \<and>
       src = d\<lparr>recurrenceCount := recurrenceCount src\<rparr> \<and>
       getDefectById (db (snd (reopenDefect env defectId data userId userName w)))
         (newDefectId (assigned env)) = Some new \<and>
       parentDefectId new = Some defectId \<and>
       status new = Open \<and>
       description new = ''Recurrence of '' @ defectCode d @ '': '' @ reason data \<and>
       history new = [] \<and>
       comments new = [] \<and>
       title new = title d \<and>
       severity new = severity d \<and>
       assetId new = assetId d \<and>
       siteId new = siteId d \<and>
       locationId new = locationId d \<and>
       siteName new = None \<and>
       assignedToId new = assignedToId d \<and>
       assignedToName new = assignedToName d \<and>
       complianceTags new = complianceTags d \<and>
       actions new = actions d)"
proof -
  obtain n where n:
    "getDefectById (db (snd (reopenDefect env defectId data userId userName w)))
       (newDefectId (assigned env)) = Some n"
    "parentDefectId n = Some defectId" "status n = Open" "history n = []" "comments n = []"
    "description n = ''Recurrence of '' @ defectCode d @ '': '' @ reason data"
    "title n = title d" "severity n = severity d" "assetId n = assetId d" "siteId n = siteId d"
    "locationId n = locationId d" "siteName n = None"
    "assignedToId n = assignedToId d" "assignedToName n = assignedToName d"
    "complianceTags n = complianceTags d" "actions n = actions d"
    using reopenDefect_new_occurrence(3)[OF assms, of userId userName] by blast
  have neq: "newDefectId (assigned env) \<noteq> defectId"
    using assms(1,3) by auto
  show ?thesis
    using reopenDefect_new_occurrence(1,2)[OF assms, of userId userName] n neq
    by simp
qed

text \<open>
  C2 does not hold for the site. reopenDefect with isNewOccurrence = true passes siteId
  and locationId to createDefect but not siteName, although it passes assignedToName
  next to assignedToId and the detail page shows the site by its name. On the closed
  defect d1 of \<open>world2\<close>, whose site is ''2'', "West Ruislip", the call returns the id d2,
  which no record had before; the record d2 has siteId ''2'' but no siteName, so the site
  of the source is not what the recurrence shows. The source keeps its status and its
  recurrenceCount becomes 1, as the claim says.
\<close>

theorem reopenDefect_recurrence_drops_siteName:
  "getDefectById (db world2) ''d1'' = Some closedDefect1 \<and>
   getDefectById (db world2) ''d2'' = None \<and>
   siteId closedDefect1 = ''2'' \<and>
   siteName closedDefect1 = Some ''West Ruislip'' \<and>
   fst (reopenDefect env1 ''d1'' reopenNew ''user-2'' ''Supervisor'' world2) = Inr ''d2'' \<and>
   map_option status (getDefectById
     (db (snd (reopenDefect env1 ''d1'' reopenNew ''user-2'' ''Supervisor'' world2))) ''d1'') =
     Some Closed \<and>
   map_option recurrenceCount (getDefectById
     (db (snd (reopenDefect env1 ''d1'' reopenNew ''user-2'' ''Supervisor'' world2))) ''d1'') =
     Some (Some 1) \<and>
   map_option parentDefectId (getDefectById
     (db (snd (reopenDefect env1 ''d1'' reopenNew ''user-2'' ''Supervisor'' world2))) ''d2'') =
     Some (Some ''d1'') \<and>
   map_option siteId (getDefectById
     (db (snd (reopenDefect env1 ''d1'' reopenNew ''user-2'' ''Supervisor'' world2))) ''d2'') =
     Some ''2'' \<and>
   map_option siteName (getDefectById
     (db (snd (reopenDefect env1 ''d1'' reopenNew ''user-2'' ''Supervisor'' world2))) ''d2'') =
     Some None"
proof -
  have h1: "getDefectById (db world2) ''d1'' = Some closedDefect1"
    by (simp add: example_defs)
  have h2: "isNewOccurrence reopenNew"
    by (simp add: reopenNew_def)
  have h3: "getDefectById (db world2) (newDefectId (assigned env1)) = None"
    by (simp add: example_defs)
  have i: "newDefectId (assigned env1) = ''d2''"
    by (simp add: env1_def)
  from reopenDefect_recurrence[OF h1 h2 h3, of "''user-2''" "''Supervisor''"]
  show ?thesis
    using h1 h3 i by (auto simp: closedDefect1_def defect1_def)
qed

text \<open>
  What the same-record branch leaves behind for a defect that exists.
\<close>

lemma reopenDefect_same_record:
  assumes "getDefectById (db w) i = Some d"
    and "\<not> isNewOccurrence data"
  shows "fst (reopenDefect env i data userId userName w) = Inr i"
    and "getDefectById (db (snd (reopenDefect env i data userId userName w))) i =
      Some (d\<lparr>status := Open, reopenedCount := map_option Suc (reopenedCount d),
              closedAt := None, closedBy := None, closedByName := None,
              attachments := (case reopen_attachments data of
                                Some a \<Rightarrow> attachments d @ a | None \<Rightarrow> attachments d),
              updatedBy := userId, updatedByName := userName,
              history := history d @
                [\<lparr>entry_at = clock env 0, entry_by = userId, entry_byName = userName,
                  entry_type = ''reopen'',
                  entry_summary = ''Defect reopened: '' @ reason data,
                  entry_data = None\<rparr>],
              comments := comments d @
                [\<lparr>comment_id = newCommentId env, comment_at = clock env 1, comment_by = userId,
                  comment_byName = userName, comment_text = ''Reopened: '' @ reason data\<rparr>]\<rparr>)"
    and "map operationName (syncQueue (snd (reopenDefect env i data userId userName w))) =
           map operationName (syncQueue w) @ [''updateDefect'', ''reopenDefect'']"
  using assms getDefectById_id[OF assms(1)]
  by (simp_all add: reopenDefect_def operation_defs getDefectById_putDefect addDefectComment_def
      addComment_def loadDefect_def loadDefects_def)

text \<open>
  For a record whose reopenedCount is a number, the same-record branch does all that is
  expected of it: status Open, the count raised by exactly one, closedAt, closedBy and
  closedByName cleared, the given attachments appended, exactly one history entry, of
  type reopen, and exactly one comment, "Reopened: {reason}", appended, and the same id
  returned.
\<close>

lemma reopenDefect_same_defect:
  assumes "getDefectById (db w) defectId = Some d"
    and "\<not> isNewOccurrence data"
    and "reopenedCount d = Some k"
  shows "fst (reopenDefect env defectId data userId userName w) = Inr defectId \<and>
    (\<exists>d' e c.
       getDefectById (db (snd (reopenDefect env defectId data userId userName w))) defectId = Some d' \<and>
       status d' = Open \<and>
       reopenedCount d' = Some (k + 1) \<and>
       closedAt d' = None \<and> closedBy d' = None \<and> closedByName d' = None \<and>
       attachments d' = attachments d @ (case reopen_attachments data of Some a \<Rightarrow> a | None \<Rightarrow> []) \<and>
       history d' = history d @ [e] \<and>
       entry_type e = ''reopen'' \<and>
       comments d' = comments d @ [c] \<and>
       comment_text c = ''Reopened: '' @ reason data)"
  using reopenDefect_same_record(1,2)[OF assms(1,2), of env userId userName] assms(3)
  by (simp split: option.splits)

text \<open>
  The count is read without a default, \<open>defect.reopenedCount + 1\<close>, where the recurrence
  count next to it is read as \<open>(defect.recurrenceCount || 0) + 1\<close>. For a record that has no
  reopenedCount the sum is not a number, and that is what is stored.
\<close>

lemma reopenDefect_same_record_no_count:
  assumes "getDefectById (db w) i = Some d"
    and "\<not> isNewOccurrence data"
    and "reopenedCount d = None"
  shows "map_option reopenedCount
           (getDefectById (db (snd (reopenDefect env i data userId userName w))) i) = Some None"
  using reopenDefect_same_record(2)[OF assms(1,2), of env userId userName] assms(3)
  by simp

text \<open>
  C3 does not hold for every Closed defect. The recurrence branch of reopenDefect
  creates its record without a reopenedCount. In \<open>worldChildClosed\<close> the recurrence d2 of
  d1 has been closed: it is a Closed defect with no reopenedCount. Reopening it with
  isNewOccurrence = false returns d2 and sets its status back to Open, but its
  reopenedCount is not a number afterwards, where one reopening should have made it 1.
\<close>

theorem reopenDefect_recurrence_child_count:
  "map_option status (getDefectById (db worldChildClosed) ''d2'') = Some Closed \<and>
   map_option parentDefectId (getDefectById (db worldChildClosed) ''d2'') = Some (Some ''d1'') \<and>
   map_option reopenedCount (getDefectById (db worldChildClosed) ''d2'') = Some None \<and>
   fst (reopenDefect env1 ''d2'' reopenSame ''user-2'' ''Supervisor'' worldChildClosed) = Inr ''d2'' \<and>
   map_option status (getDefectById
     (db (snd (reopenDefect env1 ''d2'' reopenSame ''user-2'' ''Supervisor'' worldChildClosed))) ''d2'') =
     Some Open \<and>
   map_option reopenedCount (getDefectById
     (db (snd (reopenDefect env1 ''d2'' reopenSame ''user-2'' ''Supervisor'' worldChildClosed))) ''d2'') =
     Some None"
proof -
  have h1: "getDefectById (db world2) ''d1'' = Some closedDefect1"
    by (simp add: example_defs)
  have h2: "isNewOccurrence reopenNew"
    by (simp add: reopenNew_def)
  have h3: "getDefectById (db world2) (newDefectId (assigned env1)) = None"
    by (simp add: example_defs)
  have i: "newDefectId (assigned env1) = ''d2''"
    by (simp add: env1_def)
  obtain n where n: "getDefectById (db worldRecurred) ''d2'' = Some n"
    "parentDefectId n = Some ''d1''" "reopenedCount n = None"
    using reopenDefect_new_occurrence(3)[OF h1 h2 h3, of "''user-2''" "''Supervisor''"] i
    by (auto simp: worldRecurred_def)
  obtain c where c: "getDefectById (db worldChildClosed) ''d2'' = Some c"
    "status c = Closed" "parentDefectId c = Some ''d1''" "reopenedCount c = None"
    using closeDefect_found(2)[OF n(1), of env1 closeData2 "''user-4''" "''Engineer''"] n(2,3)
    by (simp add: worldChildClosed_def)
  have h4: "\<not> isNewOccurrence reopenSame"
    by (simp add: reopenSame_def)
  from reopenDefect_same_record(1,2)[OF c(1) h4, of env1 "''user-2''" "''Supervisor''"]
  show ?thesis
    using c by simp
qed

section \<open>The sync queue\<close>

text \<open>
  createNewDefect records the record it creates: it appends a createDefect item that
  carries the new record.
\<close>

lemma createNewDefect_queued:
  "syncQueue (snd (createNewDefect env input w)) = syncQueue w @
     [\<lparr>operationName = ''createDefect'', item_id = newDefectId (assigned env),
       payload = DefectPayload (fst (createDefect (assigned env) (db w) input None))\<rparr>]"
  by (simp add: createNewDefect_def operation_defs createDefect_def DefectFields.defs Defect.defs)

text \<open>
  addDefectComment writes the comment to the record and reloads the reducer state; it
  appends nothing to the queue.
\<close>

lemma addDefectComment_not_queued:
  "syncQueue (snd (addDefectComment env i c w)) = syncQueue w"
  by (simp add: addDefectComment_def addComment_def loadDefect_def loadDefects_def operation_defs
      split: option.splits)

text \<open>
  C8 does not hold for the recurrence branch of reopenDefect. It calls createDefect of
  the repository directly, not createNewDefect: on the closed defect d1 of \<open>world2\<close> the
  new record d2 is stored with d1 as its parent, but the queue receives two
  updateDefect items only, none named createDefect and none that carries the new
  record.
\<close>

theorem reopenDefect_recurrence_not_queued:
  "getDefectById (db world2) ''d1'' = Some closedDefect1 \<and>
   syncQueue world2 = [] \<and>
   fst (reopenDefect env1 ''d1'' reopenNew ''user-2'' ''Supervisor'' world2) = Inr ''d2'' \<and>
   map_option parentDefectId (getDefectById
     (db (snd (reopenDefect env1 ''d1'' reopenNew ''user-2'' ''Supervisor'' world2))) ''d2'') =
     Some (Some ''d1'') \<and>
   syncQueue (snd (reopenDefect env1 ''d1'' reopenNew ''user-2'' ''Supervisor'' world2)) =
     [\<lparr>operationName = ''updateDefect'', item_id = ''d2'',
        payload = UpdatesPayload [Set_parentDefectId ''d1'', Set_recurrenceCount 0]\<rparr>,
      \<lparr>operationName = ''updateDefect'', item_id = ''d1'',
        payload = UpdatesPayload [Set_recurrenceCount 1]\<rparr>] \<and>
   ''createDefect'' \<notin> set (map operationName
     (syncQueue (snd (reopenDefect env1 ''d1'' reopenNew ''user-2'' ''Supervisor'' world2))))"
proof -
  have h1: "getDefectById (db world2) ''d1'' = Some closedDefect1"
    by (simp add: example_defs)
  have h2: "isNewOccurrence reopenNew"
    by (simp add: reopenNew_def)
  have h3: "getDefectById (db world2) (newDefectId (assigned env1)) = None"
    by (simp add: example_defs)
  have i: "newDefectId (assigned env1) = ''d2''"
    by (simp add: env1_def)
  obtain n where n:
    "getDefectById (db (snd (reopenDefect env1 ''d1'' reopenNew ''user-2'' ''Supervisor'' world2)))
       ''d2'' = Some n" "parentDefectId n = Some ''d1''"
    using reopenDefect_new_occurrence(3)[OF h1 h2 h3, of "''user-2''" "''Supervisor''"] i by auto
  from reopenDefect_new_occurrence(1,4)[OF h1 h2 h3, of "''user-2''" "''Supervisor''"]
  show ?thesis
    using h1 i n by (simp add: world2_def closedDefect1_def defect1_def)
qed

section \<open>bulkUpdateAssets\<close>

lemma getAssetById_putAsset:
  "getAssetById (putAsset a store) i = (if i = asset_id a then Some a else getAssetById store i)"
  by (induction store) (auto simp: getAssetById_def)

lemma getAssetById_id: "getAssetById store i = Some a \<Longrightarrow> asset_id a = i"
  by (auto simp: getAssetById_def find_Some_iff)

lemma updateAsset_id: "updateAsset validate store updates i = Inr a \<Longrightarrow> asset_id a = i"
  by (auto simp: updateAsset_def applyAssetUpdates_def Let_def
      dest: getAssetById_id split: option.splits if_splits)

lemma updateAsset_found:
  "updateAsset validate store updates i = Inr a \<Longrightarrow> getAssetById store i \<noteq> None"
  by (auto simp: updateAsset_def split: option.splits)

text \<open>One round fails exactly on the invalid items.\<close>

lemma updateAsset_fails:
  "(\<exists>why. updateAsset validate store updates i = Inl why) = itemFails validate store updates i"
  by (auto simp: updateAsset_def itemFails_def notAutoCorrectable_def Let_def split: option.splits)

text \<open>Persisting an asset that was loaded does not change which ids are invalid.\<close>

lemma itemFails_putAsset:
  "getAssetById store (asset_id a) \<noteq> None \<Longrightarrow>
   itemFails validate (putAsset a store) updates i = itemFails validate store updates i"
  by (auto simp: itemFails_def getAssetById_putAsset)

lemma bulkUpdateLoop_result:
  "updated (fst (bulkUpdateLoop validate updates ids (r, store))) =
     updated r + length (filter (\<lambda>i. \<not> itemFails validate store updates i) ids) \<and>
   map error_id (errors (fst (bulkUpdateLoop validate updates ids (r, store)))) =
     map error_id (errors r) @ filter (itemFails validate store updates) ids"
proof (induction ids arbitrary: r store)
  case Nil
  then show ?case by simp
next
  case (Cons i ids)
  show ?case
  proof (cases "updateAsset validate store updates i")
    case (Inl why)
    then have "itemFails validate store updates i"
      using updateAsset_fails by blast
    with Inl Cons.IH show ?thesis by simp
  next
    case (Inr a)
    then have ok: "\<not> itemFails validate store updates i"
      using updateAsset_fails[of validate store updates i] by auto
    have "asset_id a = i"
      using Inr by (rule updateAsset_id)
    moreover have "getAssetById store i \<noteq> None"
      using Inr by (rule updateAsset_found)
    ultimately have "\<And>j. itemFails validate (putAsset a store) updates j =
        itemFails validate store updates j"
      by (simp add: itemFails_putAsset)
    with Inr ok Cons.IH show ?thesis by simp
  qed
qed

text \<open>
  C6. For N asset ids of which K are invalid (the id is not found, or the requested
  status pair fails validation and is not auto-correctable), bulkUpdateAssets returns
  updated = N - K and K errors; the errors are the invalid ids in input order; and the
  call always returns this aggregate: its result type has no error alternative, so one
  bad item never aborts the batch. This holds for every validator.
\<close>

theorem bulkUpdateAssets_partial_failure:
  "updated (fst (bulkUpdateAssets validate store ids updates)) =
     length ids - length (filter (itemFails validate store updates) ids) \<and>
   length (errors (fst (bulkUpdateAssets validate store ids updates))) =
     length (filter (itemFails validate store updates) ids) \<and>
   map error_id (errors (fst (bulkUpdateAssets validate store ids updates))) =
     filter (itemFails validate store updates) ids \<and>
   updated (fst (bulkUpdateAssets validate store ids updates)) +
     length (errors (fst (bulkUpdateAssets validate store ids updates))) = length ids"
proof -
  let ?r = "fst (bulkUpdateAssets validate store ids updates)"
  let ?bad = "filter (itemFails validate store updates) ids"
  have u: "updated ?r = length (filter (\<lambda>i. \<not> itemFails validate store updates i) ids)"
    and e: "map error_id (errors ?r) = ?bad"
    using bulkUpdateLoop_result[of validate updates ids "\<lparr>updated = 0, errors = []\<rparr>" store]
    by (simp_all add: bulkUpdateAssets_def)
  have l: "length (errors ?r) = length ?bad"
    using e by (metis length_map)
  have s: "length ?bad + length (filter (\<lambda>i. \<not> itemFails validate store updates i) ids) = length ids"
    by (rule sum_length_filter_compl)
  show ?thesis
    using u e l s by simp
qed

theorem bulkUpdateAssets_partial_failure_witness:
  "filter (itemFails rejectDisposedInUse [asset1, asset2]
      \<lparr>upd_operationalStatus = Some Quarantined, upd_lifecycleStatus = Some Active\<rparr>)
      [''AST-000002'', ''AST-000404'', ''AST-000001''] = [''AST-000404''] \<and>
   updated (fst (bulkUpdateAssets rejectDisposedInUse [asset1, asset2]
      [''AST-000002'', ''AST-000404'', ''AST-000001'']
      \<lparr>upd_operationalStatus = Some Quarantined, upd_lifecycleStatus = Some Active\<rparr>)) = 2 \<and>
   map error_id (errors (fst (bulkUpdateAssets rejectDisposedInUse [asset1, asset2]
      [''AST-000002'', ''AST-000404'', ''AST-000001'']
      \<lparr>upd_operationalStatus = Some Quarantined, upd_lifecycleStatus = Some Active\<rparr>))) = [''AST-000404''] \<and>
   updated (fst (bulkUpdateAssets rejectDisposedInUse [asset1, asset2]
      [''AST-000002'', ''AST-000404'', ''AST-000001'']
      \<lparr>upd_operationalStatus = Some InUse, upd_lifecycleStatus = Some Disposed\<rparr>)) = 0 \<and>
   length (errors (fst (bulkUpdateAssets rejectDisposedInUse [asset1, asset2]
      [''AST-000002'', ''AST-000404'', ''AST-000001'']
      \<lparr>upd_operationalStatus = Some InUse, upd_lifecycleStatus = Some Disposed\<rparr>))) = 3"
proof -
  have f1: "filter (itemFails rejectDisposedInUse [asset1, asset2]
      \<lparr>upd_operationalStatus = Some Quarantined, upd_lifecycleStatus = Some Active\<rparr>)
      [''AST-000002'', ''AST-000404'', ''AST-000001''] = [''AST-000404'']"
    by (simp add: itemFails_def notAutoCorrectable_def rejectDisposedInUse_def getAssetById_def
        asset1_def asset2_def)
  have f2: "filter (itemFails rejectDisposedInUse [asset1, asset2]
      \<lparr>upd_operationalStatus = Some InUse, upd_lifecycleStatus = Some Disposed\<rparr>)
      [''AST-000002'', ''AST-000404'', ''AST-000001''] = [''AST-000002'', ''AST-000404'', ''AST-000001'']"
    by (simp add: itemFails_def notAutoCorrectable_def rejectDisposedInUse_def getAssetById_def
        asset1_def asset2_def)
  from bulkUpdateAssets_partial_failure[of rejectDisposedInUse "[asset1, asset2]"
      "[''AST-000002'', ''AST-000404'', ''AST-000001'']"
      "\<lparr>upd_operationalStatus = Some Quarantined, upd_lifecycleStatus = Some Active\<rparr>"]
    bulkUpdateAssets_partial_failure[of rejectDisposedInUse "[asset1, asset2]"
      "[''AST-000002'', ''AST-000404'', ''AST-000001'']"
      "\<lparr>upd_operationalStatus = Some InUse, upd_lifecycleStatus = Some Disposed\<rparr>"]
  show ?thesis
    unfolding f1 f2 by simp
qed

end
